theory Spec2Isabelle
  imports Main "HOL-Library.Sublist" "HOL-Library.Word"
begin

section \<open>Values of the interpreter\<close>

text \<open>
  The server reads JSON documents and builds its answers from dictionaries, lists and
  strings. A value is what \<^verbatim>\<open>json.loads\<close> can return: \<^verbatim>\<open>None\<close>, a bool, an unbounded
  int, a float (held by its 64-bit pattern, since the program only passes floats on), a
  str, a list, or a dict, kept as an association list in insertion order and read with
  \<^const>\<open>map_of\<close>. A str is held as the bytes of its UTF-8 encoding; equality,
  concatenation and the substring test are the same on both sides of that encoding.
\<close>

datatype json =
    JNull
  | JBool bool
  | JInt int
  | JFloat "64 word"
  | JStr string
  | JArr "json list"
  | JObj "(string \<times> json) list"

text \<open>
  The exceptions that occur: a missing dictionary key, a method or a subscript applied to a
  value that has none, a document that \<^verbatim>\<open>json.loads\<close> rejects, and any other
  \<^verbatim>\<open>Exception\<close> the decoder may raise. Each carries what \<^verbatim>\<open>str(e)\<close> needs.
\<close>

datatype exn =
    KeyError string
  | AttributeError string
  | TypeError string
  | JSONDecodeError string
  | OtherError string

text \<open>
  What the interpreter and its \<^verbatim>\<open>json\<close> module supply: \<^verbatim>\<open>repr\<close> of a value that is not
  a str, the message of the error raised when an operation (named by a tag) meets a value
  of the wrong type, the decoder, and the pretty printer
  \<^verbatim>\<open>json.dumps(v, indent=2, ensure_ascii=False)\<close>.
\<close>

record pyenv =
  py_repr :: "json \<Rightarrow> string"
  py_err_msg :: "string \<Rightarrow> json \<Rightarrow> string"
  json_loads :: "string \<Rightarrow> exn + json"
  json_dumps_indent :: "json \<Rightarrow> string"

fun str_exn :: "exn \<Rightarrow> string" where
  \<comment> \<open>\<^verbatim>\<open>str(e)\<close>; for a KeyError it is the \<^verbatim>\<open>repr\<close> of the key, and every key the program
      subscripts is a plain identifier, whose \<^verbatim>\<open>repr\<close> is the key in single quotes\<close>
  "str_exn (KeyError k) = [CHR 0x27] @ k @ [CHR 0x27]"
| "str_exn (AttributeError m) = m"
| "str_exn (TypeError m) = m"
| "str_exn (JSONDecodeError m) = m"
| "str_exn (OtherError m) = m"

fun py_str :: "pyenv \<Rightarrow> json \<Rightarrow> string" where
  \<comment> \<open>what an f-string prints for a value\<close>
  "py_str py (JStr s) = s"
| "py_str py JNull = ''None''"
| "py_str py (JBool True) = ''True''"
| "py_str py (JBool False) = ''False''"
| "py_str py v = py_repr py v"

fun truthy :: "json \<Rightarrow> bool" where
  "truthy JNull = False"
| "truthy (JBool b) = b"
| "truthy (JInt n) = (n \<noteq> 0)"
| "truthy (JFloat w) = (push_bit 1 w \<noteq> 0)"
| "truthy (JStr s) = (s \<noteq> [])"
| "truthy (JArr xs) = (xs \<noteq> [])"
| "truthy (JObj kvs) = (kvs \<noteq> [])"

definition py_get :: "pyenv \<Rightarrow> json \<Rightarrow> string \<Rightarrow> json \<Rightarrow> exn + json" where
  \<comment> \<open>\<^verbatim>\<open>v.get(k, d)\<close>; only a dict has the method\<close>
  "py_get py v k d =
     (case v of
        JObj kvs \<Rightarrow> Inr (case map_of kvs k of None \<Rightarrow> d | Some x \<Rightarrow> x)
      | _ \<Rightarrow> Inl (AttributeError (py_err_msg py ''get'' v)))"

definition py_item :: "pyenv \<Rightarrow> json \<Rightarrow> string \<Rightarrow> exn + json" where
  \<comment> \<open>\<^verbatim>\<open>v[k]\<close> for a str key \<open>k\<close>\<close>
  "py_item py v k =
     (case v of
        JObj kvs \<Rightarrow> (case map_of kvs k of None \<Rightarrow> Inl (KeyError k) | Some x \<Rightarrow> Inr x)
      | _ \<Rightarrow> Inl (TypeError (py_err_msg py ''getitem'' v)))"

definition py_in :: "pyenv \<Rightarrow> json \<Rightarrow> json \<Rightarrow> exn + bool" where
  \<comment> \<open>\<^verbatim>\<open>x in s\<close> for a str \<open>s\<close>, the only right operand the program has: the substring
      test, which wants a str on the left\<close>
  "py_in py x s =
     (case s of
        JStr hay \<Rightarrow>
          (case x of
             JStr needle \<Rightarrow> Inr (sublist needle hay)
           | _ \<Rightarrow> Inl (TypeError (py_err_msg py ''in'' x)))
      | _ \<Rightarrow> Inl (TypeError (py_err_msg py ''contains'' s)))"

definition loads_value :: "pyenv \<Rightarrow> json \<Rightarrow> exn + json" where
  \<comment> \<open>\<^verbatim>\<open>json.loads(v)\<close>; the program only ever passes a str\<close>
  "loads_value py v =
     (case v of
        JStr s \<Rightarrow> json_loads py s
      | _ \<Rightarrow> Inl (TypeError (py_err_msg py ''loads'' v)))"

subsection \<open>Whitespace\<close>






section \<open>The texts of the program\<close>

text \<open>
  The descriptions of the catalog and the status phrases are Japanese text. Each literal
  is named here and given by the bytes of its encoding, with the line of the program it
  stands on and an English gloss.
\<close>

definition desc_list_devices :: string where
  \<comment> \<open>line 69, list the available iOS simulator devices\<close>
  "desc_list_devices =
    [CHR 0xE5, CHR 0x88, CHR 0xA9, CHR 0xE7, CHR 0x94, CHR 0xA8, CHR 0xE5, CHR 0x8F,
     CHR 0xAF, CHR 0xE8, CHR 0x83, CHR 0xBD, CHR 0xE3, CHR 0x81, CHR 0xAA, CHR 0x69,
     CHR 0x4F, CHR 0x53, CHR 0xE3, CHR 0x82, CHR 0xB7, CHR 0xE3, CHR 0x83, CHR 0x9F,
     CHR 0xE3, CHR 0x83, CHR 0xA5, CHR 0xE3, CHR 0x83, CHR 0xAC, CHR 0xE3, CHR 0x83,
     CHR 0xBC, CHR 0xE3, CHR 0x82, CHR 0xBF, CHR 0xE3, CHR 0x83, CHR 0xBC, CHR 0xE3,
     CHR 0x83, CHR 0x87, CHR 0xE3, CHR 0x83, CHR 0x90, CHR 0xE3, CHR 0x82, CHR 0xA4,
     CHR 0xE3, CHR 0x82, CHR 0xB9, CHR 0xE3, CHR 0x82, CHR 0x92, CHR 0xE3, CHR 0x83,
     CHR 0xAA, CHR 0xE3, CHR 0x82, CHR 0xB9, CHR 0xE3, CHR 0x83, CHR 0x88, CHR 0xE3,
     CHR 0x82, CHR 0xA2, CHR 0xE3, CHR 0x83, CHR 0x83, CHR 0xE3, CHR 0x83, CHR 0x97]"

definition desc_boot_device :: string where
  \<comment> \<open>line 78, boot the given device\<close>
  "desc_boot_device =
    [CHR 0xE6, CHR 0x8C, CHR 0x87, CHR 0xE5, CHR 0xAE, CHR 0x9A, CHR 0xE3, CHR 0x81,
     CHR 0x95, CHR 0xE3, CHR 0x82, CHR 0x8C, CHR 0xE3, CHR 0x81, CHR 0x9F, CHR 0xE3,
     CHR 0x83, CHR 0x87, CHR 0xE3, CHR 0x83, CHR 0x90, CHR 0xE3, CHR 0x82, CHR 0xA4,
     CHR 0xE3, CHR 0x82, CHR 0xB9, CHR 0xE3, CHR 0x82, CHR 0x92, CHR 0xE8, CHR 0xB5,
     CHR 0xB7, CHR 0xE5, CHR 0x8B, CHR 0x95]"

definition desc_shutdown_device :: string where
  \<comment> \<open>line 92, shut the given device down\<close>
  "desc_shutdown_device =
    [CHR 0xE6, CHR 0x8C, CHR 0x87, CHR 0xE5, CHR 0xAE, CHR 0x9A, CHR 0xE3, CHR 0x81,
     CHR 0x95, CHR 0xE3, CHR 0x82, CHR 0x8C, CHR 0xE3, CHR 0x81, CHR 0x9F, CHR 0xE3,
     CHR 0x83, CHR 0x87, CHR 0xE3, CHR 0x83, CHR 0x90, CHR 0xE3, CHR 0x82, CHR 0xA4,
     CHR 0xE3, CHR 0x82, CHR 0xB9, CHR 0xE3, CHR 0x82, CHR 0x92, CHR 0xE3, CHR 0x82,
     CHR 0xB7, CHR 0xE3, CHR 0x83, CHR 0xA3, CHR 0xE3, CHR 0x83, CHR 0x83, CHR 0xE3,
     CHR 0x83, CHR 0x88, CHR 0xE3, CHR 0x83, CHR 0x80, CHR 0xE3, CHR 0x82, CHR 0xA6,
     CHR 0xE3, CHR 0x83, CHR 0xB3]"

definition desc_install_app :: string where
  \<comment> \<open>line 106, install an app on the simulator\<close>
  "desc_install_app =
    [CHR 0xE3, CHR 0x82, CHR 0xA2, CHR 0xE3, CHR 0x83, CHR 0x97, CHR 0xE3, CHR 0x83,
     CHR 0xAA, CHR 0xE3, CHR 0x82, CHR 0x92, CHR 0xE3, CHR 0x82, CHR 0xB7, CHR 0xE3,
     CHR 0x83, CHR 0x9F, CHR 0xE3, CHR 0x83, CHR 0xA5, CHR 0xE3, CHR 0x83, CHR 0xAC,
     CHR 0xE3, CHR 0x83, CHR 0xBC, CHR 0xE3, CHR 0x82, CHR 0xBF, CHR 0xE3, CHR 0x83,
     CHR 0xBC, CHR 0xE3, CHR 0x81, CHR 0xAB, CHR 0xE3, CHR 0x82, CHR 0xA4, CHR 0xE3,
     CHR 0x83, CHR 0xB3, CHR 0xE3, CHR 0x82, CHR 0xB9, CHR 0xE3, CHR 0x83, CHR 0x88,
     CHR 0xE3, CHR 0x83, CHR 0xBC, CHR 0xE3, CHR 0x83, CHR 0xAB]"

definition desc_launch_app :: string where
  \<comment> \<open>line 124, launch an app\<close>
  "desc_launch_app =
    [CHR 0xE3, CHR 0x82, CHR 0xA2, CHR 0xE3, CHR 0x83, CHR 0x97, CHR 0xE3, CHR 0x83,
     CHR 0xAA, CHR 0xE3, CHR 0x82, CHR 0x92, CHR 0xE8, CHR 0xB5, CHR 0xB7, CHR 0xE5,
     CHR 0x8B, CHR 0x95]"

definition desc_build_and_run :: string where
  \<comment> \<open>line 142, build an Xcode project and run it in the simulator\<close>
  "desc_build_and_run =
    [CHR 0x58, CHR 0x63, CHR 0x6F, CHR 0x64, CHR 0x65, CHR 0xE3, CHR 0x83, CHR 0x97,
     CHR 0xE3, CHR 0x83, CHR 0xAD, CHR 0xE3, CHR 0x82, CHR 0xB8, CHR 0xE3, CHR 0x82,
     CHR 0xA7, CHR 0xE3, CHR 0x82, CHR 0xAF, CHR 0xE3, CHR 0x83, CHR 0x88, CHR 0xE3,
     CHR 0x82, CHR 0x92, CHR 0xE3, CHR 0x83, CHR 0x93, CHR 0xE3, CHR 0x83, CHR 0xAB,
     CHR 0xE3, CHR 0x83, CHR 0x89, CHR 0xE3, CHR 0x81, CHR 0x97, CHR 0xE3, CHR 0x81,
     CHR 0xA6, CHR 0xE3, CHR 0x82, CHR 0xB7, CHR 0xE3, CHR 0x83, CHR 0x9F, CHR 0xE3,
     CHR 0x83, CHR 0xA5, CHR 0xE3, CHR 0x83, CHR 0xAC, CHR 0xE3, CHR 0x83, CHR 0xBC,
     CHR 0xE3, CHR 0x82, CHR 0xBF, CHR 0xE3, CHR 0x83, CHR 0xBC, CHR 0xE3, CHR 0x81,
     CHR 0xA7, CHR 0xE5, CHR 0xAE, CHR 0x9F, CHR 0xE8, CHR 0xA1, CHR 0x8C]"

definition desc_get_app_status :: string where
  \<comment> \<open>line 165, check whether an app is running\<close>
  "desc_get_app_status =
    [CHR 0xE3, CHR 0x82, CHR 0xA2, CHR 0xE3, CHR 0x83, CHR 0x97, CHR 0xE3, CHR 0x83,
     CHR 0xAA, CHR 0xE3, CHR 0x81, CHR 0xAE, CHR 0xE5, CHR 0xAE, CHR 0x9F, CHR 0xE8,
     CHR 0xA1, CHR 0x8C, CHR 0xE7, CHR 0x8A, CHR 0xB6, CHR 0xE6, CHR 0x85, CHR 0x8B,
     CHR 0xE3, CHR 0x82, CHR 0x92, CHR 0xE7, CHR 0xA2, CHR 0xBA, CHR 0xE8, CHR 0xAA,
     CHR 0x8D]"

definition desc_udid_or_name :: string where
  \<comment> \<open>line 84, UDID or name of the device\<close>
  "desc_udid_or_name =
    [CHR 0xE3, CHR 0x83, CHR 0x87, CHR 0xE3, CHR 0x83, CHR 0x90, CHR 0xE3, CHR 0x82,
     CHR 0xA4, CHR 0xE3, CHR 0x82, CHR 0xB9, CHR 0xE3, CHR 0x81, CHR 0xAE, CHR 0x55,
     CHR 0x44, CHR 0x49, CHR 0x44, CHR 0xE3, CHR 0x81, CHR 0xBE, CHR 0xE3, CHR 0x81,
     CHR 0x9F, CHR 0xE3, CHR 0x81, CHR 0xAF, CHR 0xE3, CHR 0x83, CHR 0x87, CHR 0xE3,
     CHR 0x83, CHR 0x90, CHR 0xE3, CHR 0x82, CHR 0xA4, CHR 0xE3, CHR 0x82, CHR 0xB9,
     CHR 0xE5, CHR 0x90, CHR 0x8D]"

definition desc_udid_or_booted :: string where
  \<comment> \<open>line 98, UDID of the device, or 'booted'\<close>
  "desc_udid_or_booted =
    [CHR 0xE3, CHR 0x83, CHR 0x87, CHR 0xE3, CHR 0x83, CHR 0x90, CHR 0xE3, CHR 0x82,
     CHR 0xA4, CHR 0xE3, CHR 0x82, CHR 0xB9, CHR 0xE3, CHR 0x81, CHR 0xAE, CHR 0x55,
     CHR 0x44, CHR 0x49, CHR 0x44, CHR 0xE3, CHR 0x81, CHR 0xBE, CHR 0xE3, CHR 0x81,
     CHR 0x9F, CHR 0xE3, CHR 0x81, CHR 0xAF, CHR 0x27, CHR 0x62, CHR 0x6F, CHR 0x6F,
     CHR 0x74, CHR 0x65, CHR 0x64, CHR 0x27]"

definition desc_app_path :: string where
  \<comment> \<open>line 116, path of the .app file\<close>
  "desc_app_path =
    [CHR 0x2E, CHR 0x61, CHR 0x70, CHR 0x70, CHR 0xE3, CHR 0x83, CHR 0x95, CHR 0xE3,
     CHR 0x82, CHR 0xA1, CHR 0xE3, CHR 0x82, CHR 0xA4, CHR 0xE3, CHR 0x83, CHR 0xAB,
     CHR 0xE3, CHR 0x81, CHR 0xAE, CHR 0xE3, CHR 0x83, CHR 0x91, CHR 0xE3, CHR 0x82,
     CHR 0xB9]"

definition desc_bundle_id :: string where
  \<comment> \<open>line 134, Bundle ID of the app\<close>
  "desc_bundle_id =
    [CHR 0xE3, CHR 0x82, CHR 0xA2, CHR 0xE3, CHR 0x83, CHR 0x97, CHR 0xE3, CHR 0x83,
     CHR 0xAA, CHR 0xE3, CHR 0x81, CHR 0xAE, CHR 0x42, CHR 0x75, CHR 0x6E, CHR 0x64,
     CHR 0x6C, CHR 0x65, CHR 0x20, CHR 0x49, CHR 0x44]"

definition desc_project_path :: string where
  \<comment> \<open>line 148, path of the Xcode project\<close>
  "desc_project_path =
    [CHR 0x58, CHR 0x63, CHR 0x6F, CHR 0x64, CHR 0x65, CHR 0xE3, CHR 0x83, CHR 0x97,
     CHR 0xE3, CHR 0x83, CHR 0xAD, CHR 0xE3, CHR 0x82, CHR 0xB8, CHR 0xE3, CHR 0x82,
     CHR 0xA7, CHR 0xE3, CHR 0x82, CHR 0xAF, CHR 0xE3, CHR 0x83, CHR 0x88, CHR 0xE3,
     CHR 0x81, CHR 0xAE, CHR 0xE3, CHR 0x83, CHR 0x91, CHR 0xE3, CHR 0x82, CHR 0xB9]"

definition desc_scheme :: string where
  \<comment> \<open>line 152, build scheme\<close>
  "desc_scheme =
    [CHR 0xE3, CHR 0x83, CHR 0x93, CHR 0xE3, CHR 0x83, CHR 0xAB, CHR 0xE3, CHR 0x83,
     CHR 0x89, CHR 0xE3, CHR 0x82, CHR 0xB9, CHR 0xE3, CHR 0x82, CHR 0xAD, CHR 0xE3,
     CHR 0x83, CHR 0xBC, CHR 0xE3, CHR 0x83, CHR 0xA0]"

definition txt_json_error :: string where
  \<comment> \<open>line 243, 'JSON parse error: '\<close>
  "txt_json_error =
    [CHR 0x4A, CHR 0x53, CHR 0x4F, CHR 0x4E, CHR 0xE8, CHR 0xA7, CHR 0xA3, CHR 0xE6,
     CHR 0x9E, CHR 0x90, CHR 0xE3, CHR 0x82, CHR 0xA8, CHR 0xE3, CHR 0x83, CHR 0xA9,
     CHR 0xE3, CHR 0x83, CHR 0xBC, CHR 0x3A, CHR 0x20]"

definition txt_command_failed :: string where
  \<comment> \<open>line 246, 'command failed: '\<close>
  "txt_command_failed =
    [CHR 0xE3, CHR 0x82, CHR 0xB3, CHR 0xE3, CHR 0x83, CHR 0x9E, CHR 0xE3, CHR 0x83,
     CHR 0xB3, CHR 0xE3, CHR 0x83, CHR 0x89, CHR 0xE5, CHR 0xA4, CHR 0xB1, CHR 0xE6,
     CHR 0x95, CHR 0x97, CHR 0x3A, CHR 0x20]"

definition txt_boot_ok :: string where
  \<comment> \<open>line 252, 'boot succeeded'\<close>
  "txt_boot_ok =
    [CHR 0xE8, CHR 0xB5, CHR 0xB7, CHR 0xE5, CHR 0x8B, CHR 0x95, CHR 0xE6, CHR 0x88,
     CHR 0x90, CHR 0xE5, CHR 0x8A, CHR 0x9F]"

definition txt_boot_failed :: string where
  \<comment> \<open>line 252, 'boot failed: '\<close>
  "txt_boot_failed =
    [CHR 0xE8, CHR 0xB5, CHR 0xB7, CHR 0xE5, CHR 0x8B, CHR 0x95, CHR 0xE5, CHR 0xA4,
     CHR 0xB1, CHR 0xE6, CHR 0x95, CHR 0x97, CHR 0x3A, CHR 0x20]"

definition txt_shutdown_ok :: string where
  \<comment> \<open>line 260, 'shutdown succeeded'\<close>
  "txt_shutdown_ok =
    [CHR 0xE3, CHR 0x82, CHR 0xB7, CHR 0xE3, CHR 0x83, CHR 0xA3, CHR 0xE3, CHR 0x83,
     CHR 0x83, CHR 0xE3, CHR 0x83, CHR 0x88, CHR 0xE3, CHR 0x83, CHR 0x80, CHR 0xE3,
     CHR 0x82, CHR 0xA6, CHR 0xE3, CHR 0x83, CHR 0xB3, CHR 0xE6, CHR 0x88, CHR 0x90,
     CHR 0xE5, CHR 0x8A, CHR 0x9F]"

definition txt_shutdown_failed :: string where
  \<comment> \<open>line 260, 'shutdown failed: '\<close>
  "txt_shutdown_failed =
    [CHR 0xE3, CHR 0x82, CHR 0xB7, CHR 0xE3, CHR 0x83, CHR 0xA3, CHR 0xE3, CHR 0x83,
     CHR 0x83, CHR 0xE3, CHR 0x83, CHR 0x88, CHR 0xE3, CHR 0x83, CHR 0x80, CHR 0xE3,
     CHR 0x82, CHR 0xA6, CHR 0xE3, CHR 0x83, CHR 0xB3, CHR 0xE5, CHR 0xA4, CHR 0xB1,
     CHR 0xE6, CHR 0x95, CHR 0x97, CHR 0x3A, CHR 0x20]"

definition txt_install_ok :: string where
  \<comment> \<open>line 268, 'install succeeded'\<close>
  "txt_install_ok =
    [CHR 0xE3, CHR 0x82, CHR 0xA4, CHR 0xE3, CHR 0x83, CHR 0xB3, CHR 0xE3, CHR 0x82,
     CHR 0xB9, CHR 0xE3, CHR 0x83, CHR 0x88, CHR 0xE3, CHR 0x83, CHR 0xBC, CHR 0xE3,
     CHR 0x83, CHR 0xAB, CHR 0xE6, CHR 0x88, CHR 0x90, CHR 0xE5, CHR 0x8A, CHR 0x9F]"

definition txt_install_failed :: string where
  \<comment> \<open>line 268, 'install failed: '\<close>
  "txt_install_failed =
    [CHR 0xE3, CHR 0x82, CHR 0xA4, CHR 0xE3, CHR 0x83, CHR 0xB3, CHR 0xE3, CHR 0x82,
     CHR 0xB9, CHR 0xE3, CHR 0x83, CHR 0x88, CHR 0xE3, CHR 0x83, CHR 0xBC, CHR 0xE3,
     CHR 0x83, CHR 0xAB, CHR 0xE5, CHR 0xA4, CHR 0xB1, CHR 0xE6, CHR 0x95, CHR 0x97,
     CHR 0x3A, CHR 0x20]"

definition txt_launch_ok :: string where
  \<comment> \<open>line 276, 'app launch succeeded'\<close>
  "txt_launch_ok =
    [CHR 0xE3, CHR 0x82, CHR 0xA2, CHR 0xE3, CHR 0x83, CHR 0x97, CHR 0xE3, CHR 0x83,
     CHR 0xAA, CHR 0xE8, CHR 0xB5, CHR 0xB7, CHR 0xE5, CHR 0x8B, CHR 0x95, CHR 0xE6,
     CHR 0x88, CHR 0x90, CHR 0xE5, CHR 0x8A, CHR 0x9F]"

definition txt_launch_failed :: string where
  \<comment> \<open>line 276, 'app launch failed: '\<close>
  "txt_launch_failed =
    [CHR 0xE3, CHR 0x82, CHR 0xA2, CHR 0xE3, CHR 0x83, CHR 0x97, CHR 0xE3, CHR 0x83,
     CHR 0xAA, CHR 0xE8, CHR 0xB5, CHR 0xB7, CHR 0xE5, CHR 0x8B, CHR 0x95, CHR 0xE5,
     CHR 0xA4, CHR 0xB1, CHR 0xE6, CHR 0x95, CHR 0x97, CHR 0x3A, CHR 0x20]"

definition txt_build_failed :: string where
  \<comment> \<open>line 294, 'build failed:' and a newline\<close>
  "txt_build_failed =
    [CHR 0xE3, CHR 0x83, CHR 0x93, CHR 0xE3, CHR 0x83, CHR 0xAB, CHR 0xE3, CHR 0x83,
     CHR 0x89, CHR 0xE5, CHR 0xA4, CHR 0xB1, CHR 0xE6, CHR 0x95, CHR 0x97, CHR 0x3A,
     CHR 0x0A]"

definition txt_build_ok :: string where
  \<comment> \<open>line 300, 'build succeeded:' and a newline\<close>
  "txt_build_ok =
    [CHR 0xE3, CHR 0x83, CHR 0x93, CHR 0xE3, CHR 0x83, CHR 0xAB, CHR 0xE3, CHR 0x83,
     CHR 0x89, CHR 0xE6, CHR 0x88, CHR 0x90, CHR 0xE5, CHR 0x8A, CHR 0x9F, CHR 0x3A,
     CHR 0x0A]"

definition txt_running :: string where
  \<comment> \<open>line 307, 'running'\<close>
  "txt_running =
    [CHR 0xE5, CHR 0xAE, CHR 0x9F, CHR 0xE8, CHR 0xA1, CHR 0x8C, CHR 0xE4, CHR 0xB8,
     CHR 0xAD]"

definition txt_stopped :: string where
  \<comment> \<open>line 307, 'stopped'\<close>
  "txt_stopped =
    [CHR 0xE5, CHR 0x81, CHR 0x9C, CHR 0xE6, CHR 0xAD, CHR 0xA2, CHR 0xE4, CHR 0xB8,
     CHR 0xAD]"

definition txt_status_failed :: string where
  \<comment> \<open>line 309, 'status check failed: '\<close>
  "txt_status_failed =
    [CHR 0xE7, CHR 0x8A, CHR 0xB6, CHR 0xE6, CHR 0x85, CHR 0x8B, CHR 0xE7, CHR 0xA2,
     CHR 0xBA, CHR 0xE8, CHR 0xAA, CHR 0x8D, CHR 0xE5, CHR 0xA4, CHR 0xB1, CHR 0xE6,
     CHR 0x95, CHR 0x97, CHR 0x3A, CHR 0x20]"

section \<open>Running a command\<close>

text \<open>
  \<^verbatim>\<open>subprocess.run(args, capture_output=True, text=True, timeout=30)\<close> either returns a
  completed process (exit code, standard output, standard error), or raises
  \<^verbatim>\<open>TimeoutExpired\<close> when the process is still running after the timeout, or raises
  another exception, of which \<^verbatim>\<open>str(e)\<close> is kept (the program could not be started, an
  argument is not a str, the output is not text). The outside world is a state \<open>'w\<close>
  that each call may change; a runner takes it, the argument vector and the timeout in
  seconds.
\<close>

datatype proc_result =
    Completed int string string
  | TimeoutExpired
  | Raised string

type_synonym 'w runner = "'w \<Rightarrow> json list \<Rightarrow> nat \<Rightarrow> proc_result \<times> 'w"

definition run_command :: "'w runner \<Rightarrow> 'w \<Rightarrow> json list \<Rightarrow> json \<times> 'w" where
  "run_command run w args =
     (case run w args 30 of
        (Completed returncode out err, w') \<Rightarrow>
          (JObj [(''success'', JBool (returncode = 0)),
                 (''returncode'', JInt returncode),
                 (''stdout'', JStr out),
                 (''stderr'', JStr err)], w')
      | (TimeoutExpired, w') \<Rightarrow>
          (JObj [(''success'', JBool False),
                 (''error'', JStr ''Command timed out after 30 seconds'')], w')
      | (Raised msg, w') \<Rightarrow>
          (JObj [(''success'', JBool False),
                 (''error'', JStr msg)], w'))"

section \<open>The tools\<close>

definition text_content :: "string \<Rightarrow> json" where
  \<comment> \<open>\<^verbatim>\<open>{"content": [{"type": "text", "text": s}]}\<close>\<close>
  "text_content s = JObj [(''content'', JArr [JObj [(''type'', JStr ''text''), (''text'', JStr s)]])]"

definition list_devices :: "pyenv \<Rightarrow> 'w runner \<Rightarrow> 'w \<Rightarrow> (exn + json) \<times> 'w" where
  "list_devices py run w =
     (let (result, w') = run_command run w
            [JStr ''xcrun'', JStr ''simctl'', JStr ''list'', JStr ''devices'',
             JStr ''available'', JStr ''--json'']
      in case py_item py result ''success'' of
           Inl e \<Rightarrow> (Inl e, w')
         | Inr ok \<Rightarrow>
             if truthy ok then
               (case py_item py result ''stdout'' of
                  Inl e \<Rightarrow> (Inl e, w')
                | Inr out \<Rightarrow>
                    (case loads_value py out of
                       Inr devices_data \<Rightarrow>
                         (Inr (text_content (json_dumps_indent py devices_data)), w')
                     | Inl (JSONDecodeError m) \<Rightarrow>
                         (case py_item py result ''stdout'' of
                            Inl e \<Rightarrow> (Inl e, w')
                          | Inr out' \<Rightarrow> (Inr (text_content (txt_json_error @ py_str py out')), w'))
                     | Inl e \<Rightarrow> (Inl e, w')))
             else
               (case py_item py result ''stderr'' of
                  Inl e \<Rightarrow> (Inl e, w')
                | Inr err \<Rightarrow> (Inr (text_content (txt_command_failed @ py_str py err)), w')))"

definition boot_device :: "pyenv \<Rightarrow> 'w runner \<Rightarrow> 'w \<Rightarrow> json \<Rightarrow> (exn + json) \<times> 'w" where
  "boot_device py run w device_id =
     (let (result, w') = run_command run w
            [JStr ''xcrun'', JStr ''simctl'', JStr ''boot'', device_id]
      in case py_item py result ''success'' of
           Inl e \<Rightarrow> (Inl e, w')
         | Inr ok \<Rightarrow>
             if truthy ok then (Inr (text_content txt_boot_ok), w')
             else
               (case py_item py result ''stderr'' of
                  Inl e \<Rightarrow> (Inl e, w')
                | Inr err \<Rightarrow> (Inr (text_content (txt_boot_failed @ py_str py err)), w')))"

definition shutdown_device :: "pyenv \<Rightarrow> 'w runner \<Rightarrow> 'w \<Rightarrow> json \<Rightarrow> (exn + json) \<times> 'w" where
  "shutdown_device py run w device_id =
     (let (result, w') = run_command run w
            [JStr ''xcrun'', JStr ''simctl'', JStr ''shutdown'', device_id]
      in case py_item py result ''success'' of
           Inl e \<Rightarrow> (Inl e, w')
         | Inr ok \<Rightarrow>
             if truthy ok then (Inr (text_content txt_shutdown_ok), w')
             else
               (case py_item py result ''stderr'' of
                  Inl e \<Rightarrow> (Inl e, w')
                | Inr err \<Rightarrow> (Inr (text_content (txt_shutdown_failed @ py_str py err)), w')))"

definition install_app :: "pyenv \<Rightarrow> 'w runner \<Rightarrow> 'w \<Rightarrow> json \<Rightarrow> json \<Rightarrow> (exn + json) \<times> 'w" where
  "install_app py run w device_id app_path =
     (let (result, w') = run_command run w
            [JStr ''xcrun'', JStr ''simctl'', JStr ''install'', device_id, app_path]
      in case py_item py result ''success'' of
           Inl e \<Rightarrow> (Inl e, w')
         | Inr ok \<Rightarrow>
             if truthy ok then (Inr (text_content txt_install_ok), w')
             else
               (case py_item py result ''stderr'' of
                  Inl e \<Rightarrow> (Inl e, w')
                | Inr err \<Rightarrow> (Inr (text_content (txt_install_failed @ py_str py err)), w')))"

definition launch_app :: "pyenv \<Rightarrow> 'w runner \<Rightarrow> 'w \<Rightarrow> json \<Rightarrow> json \<Rightarrow> (exn + json) \<times> 'w" where
  "launch_app py run w device_id bundle_id =
     (let (result, w') = run_command run w
            [JStr ''xcrun'', JStr ''simctl'', JStr ''launch'', device_id, bundle_id]
      in case py_item py result ''success'' of
           Inl e \<Rightarrow> (Inl e, w')
         | Inr ok \<Rightarrow>
             if truthy ok then (Inr (text_content txt_launch_ok), w')
             else
               (case py_item py result ''stderr'' of
                  Inl e \<Rightarrow> (Inl e, w')
                | Inr err \<Rightarrow> (Inr (text_content (txt_launch_failed @ py_str py err)), w')))"

definition build_and_run ::
  "pyenv \<Rightarrow> 'w runner \<Rightarrow> 'w \<Rightarrow> json \<Rightarrow> json \<Rightarrow> json \<Rightarrow> (exn + json) \<times> 'w" where
  \<comment> \<open>the third argument, \<open>device_id\<close>, is a parameter of the method that its body never reads\<close>
  "build_and_run py run w project_path scheme device_id =
     (let (build_result, w') = run_command run w
            [JStr ''xcodebuild'',
             JStr ''-project'', project_path,
             JStr ''-scheme'', scheme,
             JStr ''-destination'', JStr ''generic/platform=iOS Simulator'',
             JStr ''build'']
      in case py_item py build_result ''success'' of
           Inl e \<Rightarrow> (Inl e, w')
         | Inr ok \<Rightarrow>
             if \<not> truthy ok then
               (case py_item py build_result ''stderr'' of
                  Inl e \<Rightarrow> (Inl e, w')
                | Inr err \<Rightarrow> (Inr (text_content (txt_build_failed @ py_str py err)), w'))
             else
               (case py_item py build_result ''stdout'' of
                  Inl e \<Rightarrow> (Inl e, w')
                | Inr out \<Rightarrow> (Inr (text_content (txt_build_ok @ py_str py out)), w')))"

definition get_app_status :: "pyenv \<Rightarrow> 'w runner \<Rightarrow> 'w \<Rightarrow> json \<Rightarrow> json \<Rightarrow> (exn + json) \<times> 'w" where
  "get_app_status py run w device_id bundle_id =
     (let (result, w') = run_command run w
            [JStr ''xcrun'', JStr ''simctl'', JStr ''spawn'', device_id,
             JStr ''launchctl'', JStr ''list'']
      in case py_item py result ''success'' of
           Inl e \<Rightarrow> (Inl e, w')
         | Inr ok \<Rightarrow>
             if truthy ok then
               (case py_item py result ''stdout'' of
                  Inl e \<Rightarrow> (Inl e, w')
                | Inr out \<Rightarrow>
                    (case py_in py bundle_id out of
                       Inl e \<Rightarrow> (Inl e, w')
                     | Inr found \<Rightarrow>
                         (Inr (text_content (if found then txt_running else txt_stopped)), w')))
             else
               (case py_item py result ''stderr'' of
                  Inl e \<Rightarrow> (Inl e, w')
                | Inr err \<Rightarrow> (Inr (text_content (txt_status_failed @ py_str py err)), w')))"

section \<open>The catalog of tools\<close>

definition string_property :: "string \<Rightarrow> json" where
  \<comment> \<open>\<^verbatim>\<open>{"type": "string", "description": d}\<close>\<close>
  "string_property d = JObj [(''type'', JStr ''string''), (''description'', JStr d)]"

definition tool_entry :: "string \<Rightarrow> string \<Rightarrow> (string \<times> json) list \<Rightarrow> string list \<Rightarrow> json" where
  \<comment> \<open>one entry of the list: name, description, and an input schema of type object\<close>
  "tool_entry name description properties required =
     JObj [(''name'', JStr name),
           (''description'', JStr description),
           (''inputSchema'',
              JObj [(''type'', JStr ''object''),
                    (''properties'', JObj properties),
                    (''required'', JArr (map JStr required))])]"

definition list_tools :: json where
  "list_tools =
     JObj [(''tools'', JArr
       [tool_entry ''list_devices'' desc_list_devices [] [],
        tool_entry ''boot_device'' desc_boot_device
          [(''device_id'', string_property desc_udid_or_name)]
          [''device_id''],
        tool_entry ''shutdown_device'' desc_shutdown_device
          [(''device_id'', string_property desc_udid_or_booted)]
          [''device_id''],
        tool_entry ''install_app'' desc_install_app
          [(''device_id'', string_property desc_udid_or_booted),
           (''app_path'', string_property desc_app_path)]
          [''device_id'', ''app_path''],
        tool_entry ''launch_app'' desc_launch_app
          [(''device_id'', string_property desc_udid_or_booted),
           (''bundle_id'', string_property desc_bundle_id)]
          [''device_id'', ''bundle_id''],
        tool_entry ''build_and_run'' desc_build_and_run
          [(''project_path'', string_property desc_project_path),
           (''scheme'', string_property desc_scheme),
           (''device_id'',
              JObj [(''type'', JStr ''string''),
                    (''description'', JStr desc_udid_or_booted),
                    (''default'', JStr ''booted'')])]
          [''project_path'', ''scheme''],
        tool_entry ''get_app_status'' desc_get_app_status
          [(''device_id'', string_property desc_udid_or_booted),
           (''bundle_id'', string_property desc_bundle_id)]
          [''device_id'', ''bundle_id'']])]"

text \<open>Reading the catalog: the entries, and the parts of one entry.\<close>

definition catalog :: "json list" where
  "catalog = (case list_tools of
                JObj kvs \<Rightarrow> (case map_of kvs ''tools'' of Some (JArr ts) \<Rightarrow> ts | _ \<Rightarrow> [])
              | _ \<Rightarrow> [])"

fun the_str :: "json \<Rightarrow> string option" where
  "the_str (JStr s) = Some s"
| "the_str _ = None"

fun member_of :: "json \<Rightarrow> string \<Rightarrow> json option" where
  "member_of (JObj kvs) k = map_of kvs k"
| "member_of _ k = None"

definition tool_name :: "json \<Rightarrow> string option" where
  "tool_name t = (case member_of t ''name'' of Some v \<Rightarrow> the_str v | None \<Rightarrow> None)"

definition tool_required :: "json \<Rightarrow> string list" where
  "tool_required t =
     (case member_of t ''inputSchema'' of
        Some schema \<Rightarrow>
          (case member_of schema ''required'' of
             Some (JArr rs) \<Rightarrow> List.map_filter the_str rs
           | _ \<Rightarrow> [])
      | None \<Rightarrow> [])"

definition tool_properties :: "json \<Rightarrow> (string \<times> json) list" where
  "tool_properties t =
     (case member_of t ''inputSchema'' of
        Some schema \<Rightarrow>
          (case member_of schema ''properties'' of
             Some (JObj ps) \<Rightarrow> ps
           | _ \<Rightarrow> [])
      | None \<Rightarrow> [])"

definition tool_optional :: "json \<Rightarrow> (string \<times> json option) list" where
  \<comment> \<open>the declared fields that are not required, each with its default when it has one\<close>
  "tool_optional t =
     map (\<lambda>(k, p). (k, member_of p ''default''))
       (filter (\<lambda>(k, p). k \<notin> set (tool_required t)) (tool_properties t))"

definition tool_names :: "string list" where
  "tool_names = List.map_filter tool_name catalog"

definition required_fields :: "string \<Rightarrow> string list" where
  \<comment> \<open>the required fields the catalog declares for the tool of that name\<close>
  "required_fields name =
     (case find (\<lambda>t. tool_name t = Some name) catalog of
        Some t \<Rightarrow> tool_required t
      | None \<Rightarrow> [])"

section \<open>The dispatcher\<close>

definition call_tool :: "pyenv \<Rightarrow> 'w runner \<Rightarrow> 'w \<Rightarrow> json \<Rightarrow> (exn + json) \<times> 'w" where
  "call_tool py run w params =
     (case py_get py params ''name'' JNull of
        Inl e \<Rightarrow> (Inl e, w)
      | Inr name \<Rightarrow>
     (case py_get py params ''arguments'' (JObj []) of
        Inl e \<Rightarrow> (Inl e, w)
      | Inr arguments \<Rightarrow>
        if name = JStr ''list_devices'' then list_devices py run w
        else if name = JStr ''boot_device'' then
          (case py_item py arguments ''device_id'' of
             Inl e \<Rightarrow> (Inl e, w)
           | Inr device_id \<Rightarrow> boot_device py run w device_id)
        else if name = JStr ''shutdown_device'' then
          (case py_item py arguments ''device_id'' of
             Inl e \<Rightarrow> (Inl e, w)
           | Inr device_id \<Rightarrow> shutdown_device py run w device_id)
        else if name = JStr ''install_app'' then
          (case py_item py arguments ''device_id'' of
             Inl e \<Rightarrow> (Inl e, w)
           | Inr device_id \<Rightarrow>
          (case py_item py arguments ''app_path'' of
             Inl e \<Rightarrow> (Inl e, w)
           | Inr app_path \<Rightarrow> install_app py run w device_id app_path))
        else if name = JStr ''launch_app'' then
          (case py_item py arguments ''device_id'' of
             Inl e \<Rightarrow> (Inl e, w)
           | Inr device_id \<Rightarrow>
          (case py_item py arguments ''bundle_id'' of
             Inl e \<Rightarrow> (Inl e, w)
           | Inr bundle_id \<Rightarrow> launch_app py run w device_id bundle_id))
        else if name = JStr ''build_and_run'' then
          (case py_item py arguments ''project_path'' of
             Inl e \<Rightarrow> (Inl e, w)
           | Inr project_path \<Rightarrow>
          (case py_item py arguments ''scheme'' of
             Inl e \<Rightarrow> (Inl e, w)
           | Inr scheme \<Rightarrow>
          (case py_get py arguments ''device_id'' (JStr ''booted'') of
             Inl e \<Rightarrow> (Inl e, w)
           | Inr device_id \<Rightarrow> build_and_run py run w project_path scheme device_id)))
        else if name = JStr ''get_app_status'' then
          (case py_item py arguments ''device_id'' of
             Inl e \<Rightarrow> (Inl e, w)
           | Inr device_id \<Rightarrow>
          (case py_item py arguments ''bundle_id'' of
             Inl e \<Rightarrow> (Inl e, w)
           | Inr bundle_id \<Rightarrow> get_app_status py run w device_id bundle_id))
        else (Inr (JObj [(''error'', JStr (''Unknown tool: '' @ py_str py name))]), w)))"

section \<open>The request engine\<close>

definition version :: string where
  \<comment> \<open>\<^verbatim>\<open>self.version\<close>, set once by the constructor\<close>
  "version = ''1.0.0''"

definition initialize :: "json \<Rightarrow> json" where
  "initialize params =
     JObj [(''protocolVersion'', JStr ''2024-11-05''),
           (''capabilities'', JObj [(''tools'', JObj [])]),
           (''serverInfo'', JObj [(''name'', JStr ''ios-simulator-mcp''),
                                  (''version'', JStr version)])]"

definition error_response :: "json \<Rightarrow> int \<Rightarrow> string \<Rightarrow> json" where
  \<comment> \<open>\<^verbatim>\<open>{"jsonrpc": "2.0", "id": i, "error": {"code": c, "message": m}}\<close>\<close>
  "error_response request_id code message =
     JObj [(''jsonrpc'', JStr ''2.0''),
           (''id'', request_id),
           (''error'', JObj [(''code'', JInt code), (''message'', JStr message)])]"

definition result_response :: "json \<Rightarrow> json \<Rightarrow> json" where
  \<comment> \<open>\<^verbatim>\<open>{"jsonrpc": "2.0", "id": i, "result": r}\<close>\<close>
  "result_response request_id result =
     JObj [(''jsonrpc'', JStr ''2.0''), (''id'', request_id), (''result'', result)]"

definition respond :: "json \<Rightarrow> (exn + json) \<times> 'w \<Rightarrow> (exn + json) \<times> 'w" where
  \<comment> \<open>the end of the \<^verbatim>\<open>try\<close> block: the result is wrapped, and an exception raised while it
      was computed becomes the error -32603 with \<^verbatim>\<open>str(e)\<close>\<close>
  "respond request_id rw =
     (case rw of
        (Inr result, w') \<Rightarrow> (Inr (result_response request_id result), w')
      | (Inl e, w') \<Rightarrow> (Inr (error_response request_id (- 32603) (str_exn e)), w'))"

definition handle_jsonrpc_request ::
  "pyenv \<Rightarrow> 'w runner \<Rightarrow> 'w \<Rightarrow> json \<Rightarrow> (exn + json) \<times> 'w" where
  \<comment> \<open>the three \<^verbatim>\<open>request.get\<close> stand before the \<^verbatim>\<open>try\<close>: an exception there leaves the method\<close>
  "handle_jsonrpc_request py run w request =
     (case py_get py request ''method'' JNull of
        Inl e \<Rightarrow> (Inl e, w)
      | Inr method \<Rightarrow>
     (case py_get py request ''params'' (JObj []) of
        Inl e \<Rightarrow> (Inl e, w)
      | Inr params \<Rightarrow>
     (case py_get py request ''id'' JNull of
        Inl e \<Rightarrow> (Inl e, w)
      | Inr request_id \<Rightarrow>
        if method = JStr ''initialize'' then respond request_id (Inr (initialize params), w)
        else if method = JStr ''tools/list'' then respond request_id (Inr list_tools, w)
        else if method = JStr ''tools/call'' then respond request_id (call_tool py run w params)
        else (Inr (error_response request_id (- 32601)
                     (''Method not found: '' @ py_str py method)), w))))"

section \<open>The transport loop\<close>


section \<open>A scripted environment\<close>

text \<open>
  A deterministic stand-in for the outside world, for running the definitions on concrete
  inputs: the state holds the results of the commands still to come and the argument
  vectors issued so far. When the script is exhausted the command cannot be started.
\<close>

text \<open>
  Beneath \<^verbatim>\<open>subprocess.run\<close> stands the process itself. Either the program cannot be
  started, and the call raises at once; or the process runs for ever; or it exits with an
  exit code, some number of seconds passes until it has exited and both of its pipes have
  been read to their end, and what it wrote is text (standard output, standard error) or
  is not, in which case reading it raises \<^verbatim>\<open>UnicodeDecodeError\<close> with some message. The call
  raises \<^verbatim>\<open>TimeoutExpired\<close> when that number of seconds is beyond the timeout, and
  otherwise returns the completed process or raises the decoding error.
\<close>

datatype process =
    CannotStart string
  | RunsForever
  | Exits int nat "string + string \<times> string"

fun subprocess_run :: "process \<Rightarrow> nat \<Rightarrow> proc_result" where
  "subprocess_run (CannotStart msg) timeout = Raised msg"
| "subprocess_run RunsForever timeout = TimeoutExpired"
| "subprocess_run (Exits returncode seconds written) timeout =
     (if timeout < seconds then TimeoutExpired
      else case written of
             Inr (out, err) \<Rightarrow> Completed returncode out err
           | Inl msg \<Rightarrow> Raised msg)"

definition utf8_error :: string where
  \<comment> \<open>\<^verbatim>\<open>str(e)\<close> of the decoding error for an output that begins with the byte 0xff\<close>
  "utf8_error =
     CHR 0x27 # ''utf-8'' @ CHR 0x27 #
       '' codec can't decode byte 0xff in position 0: invalid start byte''"

fun spawning :: "(process list \<times> json list list) runner" where
  \<comment> \<open>the state holds the processes that the coming commands will be, and the argument
      vectors issued so far\<close>
  "spawning ([], issued) args timeout = (Raised ''no such file'', ([], issued @ [args]))"
| "spawning (p # ps, issued) args timeout = (subprocess_run p timeout, (ps, issued @ [args]))"

fun scripted :: "(proc_result list \<times> json list list) runner" where
  "scripted ([], issued) args timeout = (Raised ''no such file'', ([], issued @ [args]))"
| "scripted (r # rs, issued) args timeout = (r, (rs, issued @ [args]))"

definition stub_loads :: "string \<Rightarrow> exn + json" where
  \<comment> \<open>the decoder on the few lines used below; it agrees with \<^verbatim>\<open>json.loads\<close> on them\<close>
  "stub_loads s =
     (if s = ''{}'' then Inr (JObj [])
      else if s = ''[]'' then Inr (JArr [])
      else if s = [] \<or> s = ''oops''
        then Inl (JSONDecodeError ''Expecting value: line 1 column 1 (char 0)'')
      else if s = [CHR 0x20, CHR 0x0A]
        then Inl (JSONDecodeError ''Expecting value: line 2 column 1 (char 2)'')
      else Inl (OtherError ''not a line of the script''))"

definition stub_py :: pyenv where
  "stub_py =
     \<lparr> py_repr = (\<lambda>v. ''<repr>''),
       py_err_msg = (\<lambda>op v. ''bad operand for '' @ op),
       json_loads = stub_loads,
       json_dumps_indent = (\<lambda>v. ''<json>'') \<rparr>"

section \<open>The command runner\<close>

lemma run_command_Completed:
  "run w args 30 = (Completed rc out err, w') \<Longrightarrow>
   run_command run w args =
     (JObj [(''success'', JBool (rc = 0)), (''returncode'', JInt rc),
            (''stdout'', JStr out), (''stderr'', JStr err)], w')"
  by (simp add: run_command_def)

lemma run_command_TimeoutExpired:
  "run w args 30 = (TimeoutExpired, w') \<Longrightarrow>
   run_command run w args =
     (JObj [(''success'', JBool False),
            (''error'', JStr ''Command timed out after 30 seconds'')], w')"
  by (simp add: run_command_def)

lemma run_command_Raised:
  "run w args 30 = (Raised msg, w') \<Longrightarrow>
   run_command run w args =
     (JObj [(''success'', JBool False), (''error'', JStr msg)], w')"
  by (simp add: run_command_def)

lemma run_command_spawning:
  "run_command spawning (p # ps, issued) args =
     (case subprocess_run p 30 of
        Completed returncode out err \<Rightarrow>
          JObj [(''success'', JBool (returncode = 0)), (''returncode'', JInt returncode),
                (''stdout'', JStr out), (''stderr'', JStr err)]
      | TimeoutExpired \<Rightarrow>
          JObj [(''success'', JBool False),
                (''error'', JStr ''Command timed out after 30 seconds'')]
      | Raised msg \<Rightarrow> JObj [(''success'', JBool False), (''error'', JStr msg)],
      (ps, issued @ [args]))"
  by (cases "subprocess_run p 30") (simp_all add: run_command_def)

text \<open>
  C6, as amended. Whatever the command does, the outcome is a dictionary whose \<open>success\<close>
  entry is true exactly when \<^verbatim>\<open>subprocess.run\<close> returned a completed process whose exit
  code is 0, and which has a \<open>returncode\<close> entry (the exit code) exactly when
  \<^verbatim>\<open>subprocess.run\<close> returned a completed process. When the call raised, \<open>success\<close> is
  false and there is no exit code: that is so after a timeout and when the program could
  not be started, and also when the process did exit, with whatever code, but its output
  was not text or was not at its end within the limit.
\<close>

theorem run_command_success_iff:
  assumes "run w args 30 = (r, w')"
  shows "\<exists>kvs. run_command run w args = (JObj kvs, w')
           \<and> map_of kvs ''success'' = Some (JBool (\<exists>out err. r = Completed 0 out err))
           \<and> (''returncode'' \<in> dom (map_of kvs)) = (\<exists>rc out err. r = Completed rc out err)
           \<and> (case r of Completed rc out err \<Rightarrow> map_of kvs ''returncode'' = Some (JInt rc)
               | _ \<Rightarrow> map_of kvs ''returncode'' = None)"
proof (cases r)
  case (Completed rc out err)
  with assms show ?thesis
    by (simp add: run_command_Completed)
next
  case TimeoutExpired
  with assms show ?thesis
    by (simp add: run_command_TimeoutExpired)
next
  case (Raised msg)
  with assms show ?thesis
    by (simp add: run_command_Raised)
qed

theorem run_command_success_iff_witness:
  "\<exists>kvs. run_command scripted ([Completed 1 ''out'' ''err''], []) [JStr ''xcrun'']
           = (JObj kvs, ([], [[JStr ''xcrun'']]))
         \<and> map_of kvs ''success'' = Some (JBool False)
         \<and> map_of kvs ''returncode'' = Some (JInt 1)"
  using run_command_success_iff
    [of scripted "([Completed 1 ''out'' ''err''], [])" "[JStr ''xcrun'']"
        "Completed 1 ''out'' ''err''" "([], [[JStr ''xcrun'']])"]
  by auto

text \<open>
  The process is started, writes the byte 0xff and exits with code 0 after one second.
  Reading its output as text raises, and the outcome has \<open>success\<close> false and no exit code,
  although the process was started and ended with exit code 0.
\<close>

theorem run_command_exit_zero_counterexample:
  "subprocess_run (Exits 0 1 (Inl utf8_error)) 30 = Raised utf8_error
   \<and> run_command spawning ([Exits 0 1 (Inl utf8_error)], [])
         [JStr ''xcrun'', JStr ''simctl'', JStr ''list'']
       = (JObj [(''success'', JBool False), (''error'', JStr utf8_error)],
          ([], [[JStr ''xcrun'', JStr ''simctl'', JStr ''list'']]))
   \<and> member_of (fst (run_command spawning ([Exits 0 1 (Inl utf8_error)], [])
         [JStr ''xcrun'', JStr ''simctl'', JStr ''list''])) ''success'' = Some (JBool False)
   \<and> member_of (fst (run_command spawning ([Exits 0 1 (Inl utf8_error)], [])
         [JStr ''xcrun'', JStr ''simctl'', JStr ''list''])) ''returncode'' = None"
  by (simp add: run_command_spawning)

text \<open>
  C7, as amended. When the process is still running at the limit of 30 seconds, so that
  the call raises \<^verbatim>\<open>TimeoutExpired\<close>, the runner raises nothing: it returns the outcome
  with \<open>success\<close> false and the message \<^verbatim>\<open>Command timed out after 30 seconds\<close> under
  \<open>error\<close>, and no exit code.
\<close>

theorem run_command_timeout:
  assumes "run w args 30 = (TimeoutExpired, w')"
  shows "run_command run w args =
           (JObj [(''success'', JBool False),
                  (''error'', JStr ''Command timed out after 30 seconds'')], w')
         \<and> member_of (fst (run_command run w args)) ''returncode'' = None
         \<and> member_of (fst (run_command run w args)) ''success'' = Some (JBool False)"
  using assms by (simp add: run_command_TimeoutExpired)

theorem run_command_timeout_witness:
  "run_command scripted ([TimeoutExpired], []) [JStr ''sleep'', JStr ''60''] =
     (JObj [(''success'', JBool False),
            (''error'', JStr ''Command timed out after 30 seconds'')],
      ([], [[JStr ''sleep'', JStr ''60'']]))"
  using run_command_timeout
    [of scripted "([TimeoutExpired], [])" "[JStr ''sleep'', JStr ''60'']"
        "([], [[JStr ''sleep'', JStr ''60'']])"]
  by simp

text \<open>
  The message of that outcome is not the text \<^verbatim>\<open>timed out\<close>, and the outcome has no entry
  named \<open>errorMessage\<close>: the message stands under \<open>error\<close>.
\<close>

theorem run_command_timeout_message_counterexample:
  "scripted ([TimeoutExpired], []) [JStr ''sleep'', JStr ''60''] 30
     = (TimeoutExpired, ([], [[JStr ''sleep'', JStr ''60'']]))
   \<and> member_of (fst (run_command scripted ([TimeoutExpired], []) [JStr ''sleep'', JStr ''60'']))
        ''error'' = Some (JStr ''Command timed out after 30 seconds'')
   \<and> member_of (fst (run_command scripted ([TimeoutExpired], []) [JStr ''sleep'', JStr ''60'']))
        ''error'' \<noteq> Some (JStr ''timed out'')
   \<and> member_of (fst (run_command scripted ([TimeoutExpired], []) [JStr ''sleep'', JStr ''60'']))
        ''errorMessage'' = None"
  by (simp add: run_command_def)

section \<open>The catalog\<close>

lemma catalog_eq:
  "catalog =
     [tool_entry ''list_devices'' desc_list_devices [] [],
      tool_entry ''boot_device'' desc_boot_device
        [(''device_id'', string_property desc_udid_or_name)] [''device_id''],
      tool_entry ''shutdown_device'' desc_shutdown_device
        [(''device_id'', string_property desc_udid_or_booted)] [''device_id''],
      tool_entry ''install_app'' desc_install_app
        [(''device_id'', string_property desc_udid_or_booted),
         (''app_path'', string_property desc_app_path)] [''device_id'', ''app_path''],
      tool_entry ''launch_app'' desc_launch_app
        [(''device_id'', string_property desc_udid_or_booted),
         (''bundle_id'', string_property desc_bundle_id)] [''device_id'', ''bundle_id''],
      tool_entry ''build_and_run'' desc_build_and_run
        [(''project_path'', string_property desc_project_path),
         (''scheme'', string_property desc_scheme),
         (''device_id'',
            JObj [(''type'', JStr ''string''),
                  (''description'', JStr desc_udid_or_booted),
                  (''default'', JStr ''booted'')])] [''project_path'', ''scheme''],
      tool_entry ''get_app_status'' desc_get_app_status
        [(''device_id'', string_property desc_udid_or_booted),
         (''bundle_id'', string_property desc_bundle_id)] [''device_id'', ''bundle_id'']]"
  by (simp add: catalog_def list_tools_def)

lemma tool_name_entry: "tool_name (tool_entry n d ps rs) = Some n"
  by (simp add: tool_name_def tool_entry_def)

lemma map_filter_the_str: "List.map_filter the_str (map JStr rs) = rs"
  by (induction rs) (simp_all add: List.map_filter_simps)

lemma tool_required_entry: "tool_required (tool_entry n d ps rs) = rs"
  by (simp add: tool_required_def tool_entry_def map_filter_the_str)

lemma tool_properties_entry: "tool_properties (tool_entry n d ps rs) = ps"
  by (simp add: tool_properties_def tool_entry_def)

lemma tool_names_eq:
  "tool_names =
     [''list_devices'', ''boot_device'', ''shutdown_device'', ''install_app'',
      ''launch_app'', ''build_and_run'', ''get_app_status'']"
  by (simp add: tool_names_def catalog_eq List.map_filter_simps tool_name_entry)

lemma required_fields_eq:
  "required_fields name =
     (if name = ''list_devices'' then []
      else if name = ''boot_device'' then [''device_id'']
      else if name = ''shutdown_device'' then [''device_id'']
      else if name = ''install_app'' then [''device_id'', ''app_path'']
      else if name = ''launch_app'' then [''device_id'', ''bundle_id'']
      else if name = ''build_and_run'' then [''project_path'', ''scheme'']
      else if name = ''get_app_status'' then [''device_id'', ''bundle_id'']
      else [])"
  by (simp add: required_fields_def catalog_eq tool_name_entry tool_required_entry)

lemma respond_eq:
  "respond i (r, w') =
     (Inr (case r of
             Inr result \<Rightarrow> result_response i result
           | Inl e \<Rightarrow> error_response i (- 32603) (str_exn e)), w')"
  by (cases r) (simp_all add: respond_def)

lemma py_get_JObj:
  "py_get py (JObj kvs) k d = Inr (case map_of kvs k of None \<Rightarrow> d | Some x \<Rightarrow> x)"
  by (simp add: py_get_def)

lemma py_item_JObj:
  "py_item py (JObj kvs) k = (case map_of kvs k of None \<Rightarrow> Inl (KeyError k) | Some x \<Rightarrow> Inr x)"
  by (simp add: py_item_def)

lemma handle_jsonrpc_request_JObj:
  "handle_jsonrpc_request py run w (JObj request) =
     (let method = (case map_of request ''method'' of None \<Rightarrow> JNull | Some v \<Rightarrow> v);
          params = (case map_of request ''params'' of None \<Rightarrow> JObj [] | Some v \<Rightarrow> v);
          request_id = (case map_of request ''id'' of None \<Rightarrow> JNull | Some v \<Rightarrow> v)
      in if method = JStr ''initialize'' then respond request_id (Inr (initialize params), w)
         else if method = JStr ''tools/list'' then respond request_id (Inr list_tools, w)
         else if method = JStr ''tools/call'' then respond request_id (call_tool py run w params)
         else (Inr (error_response request_id (- 32601)
                      (''Method not found: '' @ py_str py method)), w))"
  by (simp add: handle_jsonrpc_request_def py_get_JObj Let_def)

section \<open>The request engine\<close>

text \<open>
  C1. For every request that is a dictionary, the engine returns a response (it raises
  nothing) whose members are \<open>jsonrpc\<close>, \<open>id\<close> and either \<open>result\<close> or \<open>error\<close>, never both:
  \<open>jsonrpc\<close> is \<^verbatim>\<open>2.0\<close>, \<open>id\<close> is the request's \<open>id\<close> as it came, or null when the request
  has none, and an \<open>error\<close> is a code and a message.
\<close>

theorem handle_jsonrpc_request_response:
  "\<exists>fields w'.
     handle_jsonrpc_request py run w (JObj request) = (Inr (JObj fields), w')
     \<and> map_of fields ''jsonrpc'' = Some (JStr ''2.0'')
     \<and> map_of fields ''id'' = Some (case map_of request ''id'' of None \<Rightarrow> JNull | Some i \<Rightarrow> i)
     \<and> (map fst fields = [''jsonrpc'', ''id'', ''result'']
          \<or> (map fst fields = [''jsonrpc'', ''id'', ''error'']
              \<and> (\<exists>code message.
                    map_of fields ''error''
                      = Some (JObj [(''code'', JInt code), (''message'', JStr message)]))))"
proof -
  obtain r w' where call: "call_tool py run w
      (case map_of request ''params'' of None \<Rightarrow> JObj [] | Some v \<Rightarrow> v) = (r, w')"
    by (cases "call_tool py run w
      (case map_of request ''params'' of None \<Rightarrow> JObj [] | Some v \<Rightarrow> v)") auto
  show ?thesis
    by (cases r)
       (simp_all add: handle_jsonrpc_request_JObj Let_def call respond_eq
          result_response_def error_response_def)
qed

theorem handle_jsonrpc_request_response_witness:
  "handle_jsonrpc_request stub_py scripted ([], []) (JObj [(''method'', JStr ''initialize''), (''id'', JInt 7)])
     = (Inr (JObj [(''jsonrpc'', JStr ''2.0''), (''id'', JInt 7), (''result'', initialize (JObj []))]),
        ([], []))"
  using handle_jsonrpc_request_response
    [of stub_py scripted "([], [])" "[(''method'', JStr ''initialize''), (''id'', JInt 7)]"]
  by (simp add: handle_jsonrpc_request_JObj respond_eq result_response_def)

text \<open>
  C4. A request whose \<open>method\<close> is none of \<^verbatim>\<open>initialize\<close>, \<^verbatim>\<open>tools/list\<close> and
  \<^verbatim>\<open>tools/call\<close> (a request without a method has the method \<^verbatim>\<open>None\<close>) gets the error
  -32601 with the message \<^verbatim>\<open>Method not found: \<close> followed by the method as an f-string
  prints it, under the request's own id; no command is run.
\<close>

theorem method_not_found:
  assumes "method = (case map_of request ''method'' of None \<Rightarrow> JNull | Some v \<Rightarrow> v)"
    and "method \<noteq> JStr ''initialize''"
    and "method \<noteq> JStr ''tools/list''"
    and "method \<noteq> JStr ''tools/call''"
  shows "handle_jsonrpc_request py run w (JObj request) =
           (Inr (JObj [(''jsonrpc'', JStr ''2.0''),
                       (''id'', case map_of request ''id'' of None \<Rightarrow> JNull | Some i \<Rightarrow> i),
                       (''error'', JObj [(''code'', JInt (- 32601)),
                                         (''message'', JStr (''Method not found: '' @ py_str py method))])]),
            w)"
  using assms by (simp add: handle_jsonrpc_request_JObj Let_def error_response_def)

theorem method_not_found_witness:
  "handle_jsonrpc_request stub_py scripted ([], [])
     (JObj [(''jsonrpc'', JStr ''2.0''), (''method'', JStr ''resources/list''), (''id'', JStr ''a1'')]) =
     (Inr (JObj [(''jsonrpc'', JStr ''2.0''),
                 (''id'', JStr ''a1''),
                 (''error'', JObj [(''code'', JInt (- 32601)),
                                   (''message'', JStr ''Method not found: resources/list'')])]),
      ([], []))"
  using method_not_found
    [of "JStr ''resources/list''"
        "[(''jsonrpc'', JStr ''2.0''), (''method'', JStr ''resources/list''), (''id'', JStr ''a1'')]"
        stub_py scripted "([], [])"]
  by simp

section \<open>The dispatcher\<close>

lemma call_tool_JObj_unknown:
  assumes "name = (case map_of params ''name'' of None \<Rightarrow> JNull | Some v \<Rightarrow> v)"
    and "name \<notin> JStr ` set tool_names"
  shows "call_tool py run w (JObj params) =
           (Inr (JObj [(''error'', JStr (''Unknown tool: '' @ py_str py name))]), w)"
proof -
  obtain arguments where
    "py_get py (JObj params) ''arguments'' (JObj []) = Inr arguments"
    by (simp add: py_get_JObj)
  with assms show ?thesis
    by (simp add: call_tool_def py_get_JObj tool_names_eq)
qed

text \<open>
  C2. A \<^verbatim>\<open>tools/call\<close> request whose parameters are a dictionary and whose tool name is none
  of the seven names of the catalog (a missing name is \<^verbatim>\<open>None\<close>) gets an ordinary result:
  the dispatcher returns the dictionary with the single entry \<open>error\<close>, the text
  \<^verbatim>\<open>Unknown tool: \<close> followed by the name, and the engine sends it as the \<open>result\<close> member
  of the response, which has no \<open>error\<close> member; no command is run.
\<close>

theorem unknown_tool_is_result:
  assumes "map_of request ''method'' = Some (JStr ''tools/call'')"
    and "(case map_of request ''params'' of None \<Rightarrow> JObj [] | Some p \<Rightarrow> p) = JObj params"
    and "name = (case map_of params ''name'' of None \<Rightarrow> JNull | Some v \<Rightarrow> v)"
    and "name \<notin> JStr ` set tool_names"
  shows "call_tool py run w (JObj params) =
           (Inr (JObj [(''error'', JStr (''Unknown tool: '' @ py_str py name))]), w)
         \<and> handle_jsonrpc_request py run w (JObj request) =
           (Inr (JObj [(''jsonrpc'', JStr ''2.0''),
                       (''id'', case map_of request ''id'' of None \<Rightarrow> JNull | Some i \<Rightarrow> i),
                       (''result'',
                          JObj [(''error'', JStr (''Unknown tool: '' @ py_str py name))])]),
            w)"
  using assms call_tool_JObj_unknown [OF assms(3) assms(4), of py run w]
  by (simp add: handle_jsonrpc_request_JObj Let_def respond_eq result_response_def)

theorem unknown_tool_is_result_witness:
  "handle_jsonrpc_request stub_py scripted ([], [])
     (JObj [(''method'', JStr ''tools/call''),
            (''params'', JObj [(''name'', JStr ''erase_device''), (''arguments'', JObj [])]),
            (''id'', JInt 3)]) =
     (Inr (JObj [(''jsonrpc'', JStr ''2.0''),
                 (''id'', JInt 3),
                 (''result'', JObj [(''error'', JStr ''Unknown tool: erase_device'')])]),
      ([], []))"
  using unknown_tool_is_result
    [of "[(''method'', JStr ''tools/call''),
          (''params'', JObj [(''name'', JStr ''erase_device''), (''arguments'', JObj [])]),
          (''id'', JInt 3)]"
        "[(''name'', JStr ''erase_device''), (''arguments'', JObj [])]"
        "JStr ''erase_device''" stub_py scripted "([], [])"]
  by (simp add: tool_names_eq)

lemma call_tool_dispatch:
  assumes "map_of params ''name'' = Some (JStr name)"
    and "(case map_of params ''arguments'' of None \<Rightarrow> JObj [] | Some a \<Rightarrow> a) = arguments"
  shows "name = ''list_devices'' \<Longrightarrow>
           call_tool py run w (JObj params) = list_devices py run w"
    and "name = ''boot_device'' \<Longrightarrow>
           call_tool py run w (JObj params) =
             (case py_item py arguments ''device_id'' of
                Inl e \<Rightarrow> (Inl e, w)
              | Inr device_id \<Rightarrow> boot_device py run w device_id)"
    and "name = ''shutdown_device'' \<Longrightarrow>
           call_tool py run w (JObj params) =
             (case py_item py arguments ''device_id'' of
                Inl e \<Rightarrow> (Inl e, w)
              | Inr device_id \<Rightarrow> shutdown_device py run w device_id)"
    and "name = ''install_app'' \<Longrightarrow>
           call_tool py run w (JObj params) =
             (case py_item py arguments ''device_id'' of
                Inl e \<Rightarrow> (Inl e, w)
              | Inr device_id \<Rightarrow>
             (case py_item py arguments ''app_path'' of
                Inl e \<Rightarrow> (Inl e, w)
              | Inr app_path \<Rightarrow> install_app py run w device_id app_path))"
    and "name = ''launch_app'' \<Longrightarrow>
           call_tool py run w (JObj params) =
             (case py_item py arguments ''device_id'' of
                Inl e \<Rightarrow> (Inl e, w)
              | Inr device_id \<Rightarrow>
             (case py_item py arguments ''bundle_id'' of
                Inl e \<Rightarrow> (Inl e, w)
              | Inr bundle_id \<Rightarrow> launch_app py run w device_id bundle_id))"
    and "name = ''build_and_run'' \<Longrightarrow>
           call_tool py run w (JObj params) =
             (case py_item py arguments ''project_path'' of
                Inl e \<Rightarrow> (Inl e, w)
              | Inr project_path \<Rightarrow>
             (case py_item py arguments ''scheme'' of
                Inl e \<Rightarrow> (Inl e, w)
              | Inr scheme \<Rightarrow>
             (case py_get py arguments ''device_id'' (JStr ''booted'') of
                Inl e \<Rightarrow> (Inl e, w)
              | Inr device_id \<Rightarrow> build_and_run py run w project_path scheme device_id)))"
    and "name = ''get_app_status'' \<Longrightarrow>
           call_tool py run w (JObj params) =
             (case py_item py arguments ''device_id'' of
                Inl e \<Rightarrow> (Inl e, w)
              | Inr device_id \<Rightarrow>
             (case py_item py arguments ''bundle_id'' of
                Inl e \<Rightarrow> (Inl e, w)
              | Inr bundle_id \<Rightarrow> get_app_status py run w device_id bundle_id))"
  using assms by (simp_all add: call_tool_def py_get_JObj)

lemma call_tool_missing_field:
  assumes "map_of params ''name'' = Some (JStr name)"
    and "(case map_of params ''arguments'' of None \<Rightarrow> JObj [] | Some a \<Rightarrow> a) = JObj arguments"
    and "field \<in> set (required_fields name)"
    and "map_of arguments field = None"
  shows "\<exists>k. k \<in> set (required_fields name) \<and> map_of arguments k = None
             \<and> call_tool py run w (JObj params) = (Inl (KeyError k), w)"
proof -
  note d = call_tool_dispatch [OF assms(1) assms(2), of py run w]
  consider "name = ''boot_device''" | "name = ''shutdown_device''" | "name = ''install_app''"
    | "name = ''launch_app''" | "name = ''build_and_run''" | "name = ''get_app_status''"
    using assms(3) by (auto simp: required_fields_eq split: if_splits)
  then show ?thesis
  proof cases
    case 1
    then have "required_fields name = [''device_id'']"
      by (simp add: required_fields_eq)
    with assms(3,4) d(2) [OF 1] show ?thesis
      by (simp add: py_item_JObj)
  next
    case 2
    then have "required_fields name = [''device_id'']"
      by (simp add: required_fields_eq)
    with assms(3,4) d(3) [OF 2] show ?thesis
      by (simp add: py_item_JObj)
  next
    case 3
    then have r: "required_fields name = [''device_id'', ''app_path'']"
      by (simp add: required_fields_eq)
    show ?thesis
    proof (cases "map_of arguments ''device_id''")
      case None
      with r d(4) [OF 3] show ?thesis
        by (intro exI [of _ "''device_id''"]) (simp add: py_item_JObj)
    next
      case (Some v)
      with r assms(3,4) have "map_of arguments ''app_path'' = None" by auto
      with Some r d(4) [OF 3] show ?thesis
        by (intro exI [of _ "''app_path''"]) (simp add: py_item_JObj)
    qed
  next
    case 4
    then have r: "required_fields name = [''device_id'', ''bundle_id'']"
      by (simp add: required_fields_eq)
    show ?thesis
    proof (cases "map_of arguments ''device_id''")
      case None
      with r d(5) [OF 4] show ?thesis
        by (intro exI [of _ "''device_id''"]) (simp add: py_item_JObj)
    next
      case (Some v)
      with r assms(3,4) have "map_of arguments ''bundle_id'' = None" by auto
      with Some r d(5) [OF 4] show ?thesis
        by (intro exI [of _ "''bundle_id''"]) (simp add: py_item_JObj)
    qed
  next
    case 5
    then have r: "required_fields name = [''project_path'', ''scheme'']"
      by (simp add: required_fields_eq)
    show ?thesis
    proof (cases "map_of arguments ''project_path''")
      case None
      with r d(6) [OF 5] show ?thesis
        by (intro exI [of _ "''project_path''"]) (simp add: py_item_JObj)
    next
      case (Some v)
      with r assms(3,4) have "map_of arguments ''scheme'' = None" by auto
      with Some r d(6) [OF 5] show ?thesis
        by (intro exI [of _ "''scheme''"]) (simp add: py_item_JObj)
    qed
  next
    case 6
    then have r: "required_fields name = [''device_id'', ''bundle_id'']"
      by (simp add: required_fields_eq)
    show ?thesis
    proof (cases "map_of arguments ''device_id''")
      case None
      with r d(7) [OF 6] show ?thesis
        by (intro exI [of _ "''device_id''"]) (simp add: py_item_JObj)
    next
      case (Some v)
      with r assms(3,4) have "map_of arguments ''bundle_id'' = None" by auto
      with Some r d(7) [OF 6] show ?thesis
        by (intro exI [of _ "''bundle_id''"]) (simp add: py_item_JObj)
    qed
  qed
qed

text \<open>
  C3. A \<^verbatim>\<open>tools/call\<close> request names a tool of the catalog and its arguments are a
  dictionary (the empty one when the request gives none) that lacks a field the catalog
  requires for that tool. Then the subscript of the first lacking field raises a KeyError
  before any command is run, the engine catches it, and the response is the error -32603
  under the request's own id, with the quoted key as message.
\<close>

theorem missing_required_field:
  assumes "map_of request ''method'' = Some (JStr ''tools/call'')"
    and "(case map_of request ''params'' of None \<Rightarrow> JObj [] | Some p \<Rightarrow> p) = JObj params"
    and "map_of params ''name'' = Some (JStr name)"
    and "(case map_of params ''arguments'' of None \<Rightarrow> JObj [] | Some a \<Rightarrow> a) = JObj arguments"
    and "field \<in> set (required_fields name)"
    and "map_of arguments field = None"
  shows "\<exists>k. k \<in> set (required_fields name) \<and> map_of arguments k = None
           \<and> handle_jsonrpc_request py run w (JObj request) =
               (Inr (JObj [(''jsonrpc'', JStr ''2.0''),
                           (''id'', case map_of request ''id'' of None \<Rightarrow> JNull | Some i \<Rightarrow> i),
                           (''error'', JObj [(''code'', JInt (- 32603)),
                                             (''message'', JStr (str_exn (KeyError k)))])]),
                w)"
proof -
  from call_tool_missing_field [OF assms(3) assms(4) assms(5) assms(6), of py run w]
  obtain k where k: "k \<in> set (required_fields name)" "map_of arguments k = None"
    and call: "call_tool py run w (JObj params) = (Inl (KeyError k), w)"
    by blast
  have "handle_jsonrpc_request py run w (JObj request) =
          respond (case map_of request ''id'' of None \<Rightarrow> JNull | Some i \<Rightarrow> i)
            (call_tool py run w (JObj params))"
    using assms(1,2) by (simp add: handle_jsonrpc_request_JObj Let_def)
  with k call show ?thesis
    by (intro exI [of _ k]) (simp add: respond_eq error_response_def)
qed

theorem missing_required_field_witness:
  "handle_jsonrpc_request stub_py scripted ([Completed 0 [] []], [])
     (JObj [(''method'', JStr ''tools/call''),
            (''params'', JObj [(''name'', JStr ''boot_device''), (''arguments'', JObj [])]),
            (''id'', JInt 2)]) =
     (Inr (JObj [(''jsonrpc'', JStr ''2.0''),
                 (''id'', JInt 2),
                 (''error'', JObj [(''code'', JInt (- 32603)),
                                   (''message'', JStr [CHR 0x27, CHR ''d'', CHR ''e'', CHR ''v'',
                                      CHR ''i'', CHR ''c'', CHR ''e'', CHR ''_'', CHR ''i'',
                                      CHR ''d'', CHR 0x27])])]),
      ([Completed 0 [] []], []))"
  using missing_required_field
    [of "[(''method'', JStr ''tools/call''),
          (''params'', JObj [(''name'', JStr ''boot_device''), (''arguments'', JObj [])]),
          (''id'', JInt 2)]"
        "[(''name'', JStr ''boot_device''), (''arguments'', JObj [])]"
        "''boot_device''" "[]" "''device_id''" stub_py scripted "([Completed 0 [] []], [])"]
  by (simp add: required_fields_eq)

text \<open>
  C5. The catalog that \<^verbatim>\<open>tools/list\<close> returns has exactly the seven tools, in this order,
  each with the required fields of the table; the only declared field that is not
  required is \<open>device_id\<close> of \<open>build_and_run\<close>, whose default is \<^verbatim>\<open>booted\<close>. The engine
  sends the catalog as it is, as the \<open>result\<close> of the response.
\<close>

theorem list_tools_catalog:
  "map (\<lambda>t. (tool_name t, tool_required t, tool_optional t)) catalog =
     [(Some ''list_devices'', [], []),
      (Some ''boot_device'', [''device_id''], []),
      (Some ''shutdown_device'', [''device_id''], []),
      (Some ''install_app'', [''device_id'', ''app_path''], []),
      (Some ''launch_app'', [''device_id'', ''bundle_id''], []),
      (Some ''build_and_run'', [''project_path'', ''scheme''],
         [(''device_id'', Some (JStr ''booted''))]),
      (Some ''get_app_status'', [''device_id'', ''bundle_id''], [])]
   \<and> list_tools = JObj [(''tools'', JArr catalog)]
   \<and> handle_jsonrpc_request py run w (JObj [(''method'', JStr ''tools/list''), (''id'', i)]) =
       (Inr (JObj [(''jsonrpc'', JStr ''2.0''), (''id'', i), (''result'', list_tools)]), w)"
proof (intro conjI)
  show "map (\<lambda>t. (tool_name t, tool_required t, tool_optional t)) catalog =
     [(Some ''list_devices'', [], []),
      (Some ''boot_device'', [''device_id''], []),
      (Some ''shutdown_device'', [''device_id''], []),
      (Some ''install_app'', [''device_id'', ''app_path''], []),
      (Some ''launch_app'', [''device_id'', ''bundle_id''], []),
      (Some ''build_and_run'', [''project_path'', ''scheme''],
         [(''device_id'', Some (JStr ''booted''))]),
      (Some ''get_app_status'', [''device_id'', ''bundle_id''], [])]"
    by (simp add: catalog_eq tool_name_entry tool_required_entry tool_optional_def
          tool_properties_entry string_property_def)
  show "list_tools = JObj [(''tools'', JArr catalog)]"
    by (simp add: catalog_eq) (simp add: list_tools_def)
  show "handle_jsonrpc_request py run w (JObj [(''method'', JStr ''tools/list''), (''id'', i)]) =
       (Inr (JObj [(''jsonrpc'', JStr ''2.0''), (''id'', i), (''result'', list_tools)]), w)"
    by (simp add: handle_jsonrpc_request_JObj respond_eq result_response_def)
qed

section \<open>The application status\<close>

lemma txt_running_neq_txt_stopped: "txt_running \<noteq> txt_stopped"
  by (simp add: txt_running_def txt_stopped_def)

lemma get_app_status_exit_zero:
  assumes "run w [JStr ''xcrun'', JStr ''simctl'', JStr ''spawn'', device_id,
                  JStr ''launchctl'', JStr ''list''] 30 = (Completed 0 out err, w')"
  shows "get_app_status py run w device_id (JStr bundle_id) =
           (Inr (text_content (if sublist bundle_id out then txt_running else txt_stopped)), w')"
  using assms by (simp add: get_app_status_def run_command_def py_item_JObj py_in_def)

lemma get_app_status_exit_nonzero:
  assumes "run w [JStr ''xcrun'', JStr ''simctl'', JStr ''spawn'', device_id,
                  JStr ''launchctl'', JStr ''list''] 30 = (Completed rc out err, w')"
    and "rc \<noteq> 0"
  shows "get_app_status py run w device_id bundle_id =
           (Inr (text_content (txt_status_failed @ err)), w')"
  using assms by (simp add: get_app_status_def run_command_def py_item_JObj)

lemma get_app_status_running_iff:
  assumes "run w [JStr ''xcrun'', JStr ''simctl'', JStr ''spawn'', device_id,
                  JStr ''launchctl'', JStr ''list''] 30 = (Completed 0 out err, w')"
  shows "(get_app_status py run w device_id (JStr bundle_id) = (Inr (text_content txt_running), w'))
           = sublist bundle_id out"
  using assms txt_running_neq_txt_stopped
  by (auto simp: get_app_status_def run_command_def py_item_JObj py_in_def text_content_def)

lemma get_app_status_TimeoutExpired:
  assumes "run w [JStr ''xcrun'', JStr ''simctl'', JStr ''spawn'', device_id,
                  JStr ''launchctl'', JStr ''list''] 30 = (TimeoutExpired, w')"
  shows "get_app_status py run w device_id bundle_id = (Inl (KeyError ''stderr''), w')"
  using assms by (simp add: get_app_status_def run_command_def py_item_JObj)

lemma get_app_status_Raised:
  assumes "run w [JStr ''xcrun'', JStr ''simctl'', JStr ''spawn'', device_id,
                  JStr ''launchctl'', JStr ''list''] 30 = (Raised msg, w')"
  shows "get_app_status py run w device_id bundle_id = (Inl (KeyError ''stderr''), w')"
  using assms by (simp add: get_app_status_def run_command_def py_item_JObj)


lemma call_tool_get_app_status_example:
  "call_tool stub_py scripted ([TimeoutExpired], [])
          (JObj [(''name'', JStr ''get_app_status''),
                 (''arguments'', JObj [(''device_id'', JStr ''booted''),
                                       (''bundle_id'', JStr ''com.example.app'')])])
        = get_app_status stub_py scripted ([TimeoutExpired], []) (JStr ''booted'')
            (JStr ''com.example.app'')"
proof -
  have "call_tool stub_py scripted ([TimeoutExpired], [])
          (JObj [(''name'', JStr ''get_app_status''),
                 (''arguments'', JObj [(''device_id'', JStr ''booted''),
                                       (''bundle_id'', JStr ''com.example.app'')])]) =
        (case py_item stub_py (JObj [(''device_id'', JStr ''booted''),
                                       (''bundle_id'', JStr ''com.example.app'')]) ''device_id'' of
                Inl e \<Rightarrow> (Inl e, ([TimeoutExpired], []))
              | Inr device_id \<Rightarrow>
             (case py_item stub_py (JObj [(''device_id'', JStr ''booted''),
                                       (''bundle_id'', JStr ''com.example.app'')]) ''bundle_id'' of
                Inl e \<Rightarrow> (Inl e, ([TimeoutExpired], []))
              | Inr bundle_id \<Rightarrow> get_app_status stub_py scripted ([TimeoutExpired], []) device_id bundle_id))"
    by (rule call_tool_dispatch(7) [where name = "''get_app_status''"]) simp_all
  then show ?thesis
    by (simp add: py_item_JObj)
qed

lemma get_app_status_timeout_example:
  "get_app_status stub_py scripted ([TimeoutExpired], []) (JStr ''booted'')
     (JStr ''com.example.app'')
   = (Inl (KeyError ''stderr''),
      ([], [[JStr ''xcrun'', JStr ''simctl'', JStr ''spawn'', JStr ''booted'',
             JStr ''launchctl'', JStr ''list'']]))"
  by (rule get_app_status_TimeoutExpired) simp

text \<open>
  C9, where the program departs from it. The command of \<open>get_app_status\<close> runs into the
  time limit. Its outcome then has the entries \<open>success\<close> and \<open>error\<close> only, the failure
  branch subscripts \<open>stderr\<close>, and the KeyError leaves the tool: there is no text block,
  and the client gets the error -32603 whose message is the quoted key. The same happens
  when the command cannot be started (\<open>get_app_status_Raised\<close>). When the command ran to
  its end the claim holds: \<open>get_app_status_exit_zero\<close>, \<open>get_app_status_running_iff\<close> and
  \<open>get_app_status_exit_nonzero\<close>.
\<close>

theorem get_app_status_timeout_raises:
  "get_app_status stub_py scripted ([TimeoutExpired], []) (JStr ''booted'') (JStr ''com.example.app'')
     = (Inl (KeyError ''stderr''),
        ([], [[JStr ''xcrun'', JStr ''simctl'', JStr ''spawn'', JStr ''booted'',
               JStr ''launchctl'', JStr ''list'']]))
   \<and> handle_jsonrpc_request stub_py scripted ([TimeoutExpired], [])
       (JObj [(''method'', JStr ''tools/call''),
              (''params'', JObj [(''name'', JStr ''get_app_status''),
                                 (''arguments'', JObj [(''device_id'', JStr ''booted''),
                                                       (''bundle_id'', JStr ''com.example.app'')])]),
              (''id'', JInt 9)])
     = (Inr (JObj [(''jsonrpc'', JStr ''2.0''),
                   (''id'', JInt 9),
                   (''error'', JObj [(''code'', JInt (- 32603)),
                                     (''message'', JStr [CHR 0x27, CHR ''s'', CHR ''t'', CHR ''d'',
                                        CHR ''e'', CHR ''r'', CHR ''r'', CHR 0x27])])]),
        ([], [[JStr ''xcrun'', JStr ''simctl'', JStr ''spawn'', JStr ''booted'',
               JStr ''launchctl'', JStr ''list'']]))"
  by (simp add: handle_jsonrpc_request_JObj call_tool_get_app_status_example
        get_app_status_timeout_example respond_eq error_response_def)


section \<open>Building\<close>

lemma build_and_run_device_id:
  "build_and_run py run w project_path scheme d1 = build_and_run py run w project_path scheme d2"
  by (simp add: build_and_run_def)

lemma run_command_scripted_issued:
  "snd (snd (run_command scripted (rs, issued) args)) = issued @ [args]"
proof (cases rs)
  case Nil
  then show ?thesis by (simp add: run_command_def)
next
  case (Cons r rs')
  then show ?thesis by (cases r) (simp_all add: run_command_def)
qed

lemma build_and_run_snd:
  "snd (build_and_run py run w project_path scheme device_id) =
     snd (run_command run w
       [JStr ''xcodebuild'', JStr ''-project'', project_path, JStr ''-scheme'', scheme,
        JStr ''-destination'', JStr ''generic/platform=iOS Simulator'', JStr ''build''])"
  by (simp add: build_and_run_def split: prod.splits sum.splits)

lemma build_and_run_issues:
  "snd (snd (build_and_run py scripted (rs, issued) project_path scheme device_id)) =
     issued @ [[JStr ''xcodebuild'', JStr ''-project'', project_path, JStr ''-scheme'', scheme,
                JStr ''-destination'', JStr ''generic/platform=iOS Simulator'', JStr ''build'']]"
  by (simp only: build_and_run_snd run_command_scripted_issued)


lemma call_tool_build_and_run:
  assumes "map_of params ''name'' = Some (JStr ''build_and_run'')"
    and "map_of params ''arguments'' = Some (JObj arguments)"
  shows "call_tool py run w (JObj params) =
     (case map_of arguments ''project_path'' of
        None \<Rightarrow> (Inl (KeyError ''project_path''), w)
      | Some project_path \<Rightarrow>
     (case map_of arguments ''scheme'' of
        None \<Rightarrow> (Inl (KeyError ''scheme''), w)
      | Some scheme \<Rightarrow>
          build_and_run py run w project_path scheme
            (case map_of arguments ''device_id'' of None \<Rightarrow> JStr ''booted'' | Some d \<Rightarrow> d)))"
proof -
  have "call_tool py run w (JObj params) =
      (case py_item py (JObj arguments) ''project_path'' of
         Inl e \<Rightarrow> (Inl e, w)
       | Inr project_path \<Rightarrow>
      (case py_item py (JObj arguments) ''scheme'' of
         Inl e \<Rightarrow> (Inl e, w)
       | Inr scheme \<Rightarrow>
      (case py_get py (JObj arguments) ''device_id'' (JStr ''booted'') of
         Inl e \<Rightarrow> (Inl e, w)
       | Inr device_id \<Rightarrow> build_and_run py run w project_path scheme device_id)))"
    using assms by (intro call_tool_dispatch(6)) simp_all
  then show ?thesis
    by (simp add: py_item_JObj py_get_JObj split: option.splits)
qed

text \<open>
  C10. Two \<open>build_and_run\<close> calls whose argument dictionaries agree on \<open>project_path\<close> and
  on \<open>scheme\<close>, made in the same state of the outside world, have the same result and leave
  the same state, whatever \<open>device_id\<close> each one gives or omits; the method itself never
  reads its \<open>device_id\<close>; and the one command it issues is \<^verbatim>\<open>xcodebuild\<close> with the project,
  the scheme and the fixed destination, in which no device occurs.
\<close>

theorem build_and_run_ignores_device_id:
  assumes "map_of params1 ''name'' = Some (JStr ''build_and_run'')"
    and "map_of params2 ''name'' = Some (JStr ''build_and_run'')"
    and "map_of params1 ''arguments'' = Some (JObj arguments1)"
    and "map_of params2 ''arguments'' = Some (JObj arguments2)"
    and "map_of arguments1 ''project_path'' = map_of arguments2 ''project_path''"
    and "map_of arguments1 ''scheme'' = map_of arguments2 ''scheme''"
  shows "call_tool py run w (JObj params1) = call_tool py run w (JObj params2)
         \<and> build_and_run py run w project_path scheme d1
             = build_and_run py run w project_path scheme d2
         \<and> snd (snd (build_and_run py scripted (rs, []) project_path scheme d1)) =
             [[JStr ''xcodebuild'', JStr ''-project'', project_path, JStr ''-scheme'', scheme,
               JStr ''-destination'', JStr ''generic/platform=iOS Simulator'', JStr ''build'']]"
proof (intro conjI)
  note c1 = call_tool_build_and_run [OF assms(1) assms(3), of py run w]
  note c2 = call_tool_build_and_run [OF assms(2) assms(4), of py run w]
  show "call_tool py run w (JObj params1) = call_tool py run w (JObj params2)"
  proof (cases "map_of arguments2 ''project_path''")
    case None
    with assms(5) show ?thesis
      by (simp add: c1 c2)
  next
    case p: (Some p)
    show ?thesis
    proof (cases "map_of arguments2 ''scheme''")
      case None
      with p assms(5,6) show ?thesis
        by (simp add: c1 c2)
    next
      case (Some s)
      with p assms(5,6) have
        "call_tool py run w (JObj params1) =
           build_and_run py run w p s
             (case map_of arguments1 ''device_id'' of None \<Rightarrow> JStr ''booted'' | Some d \<Rightarrow> d)"
        and "call_tool py run w (JObj params2) =
           build_and_run py run w p s
             (case map_of arguments2 ''device_id'' of None \<Rightarrow> JStr ''booted'' | Some d \<Rightarrow> d)"
        by (simp_all add: c1 c2)
      then show ?thesis
        by (simp only: build_and_run_device_id
              [of py run w p s
                  "case map_of arguments1 ''device_id'' of None \<Rightarrow> JStr ''booted'' | Some d \<Rightarrow> d"
                  "case map_of arguments2 ''device_id'' of None \<Rightarrow> JStr ''booted'' | Some d \<Rightarrow> d"])
    qed
  qed
  show "build_and_run py run w project_path scheme d1
          = build_and_run py run w project_path scheme d2"
    by (rule build_and_run_device_id)
  show "snd (snd (build_and_run py scripted (rs, []) project_path scheme d1)) =
             [[JStr ''xcodebuild'', JStr ''-project'', project_path, JStr ''-scheme'', scheme,
               JStr ''-destination'', JStr ''generic/platform=iOS Simulator'', JStr ''build'']]"
    by (simp only: build_and_run_issues append_Nil)
qed

theorem build_and_run_ignores_device_id_witness:
  "call_tool stub_py scripted ([Completed 0 ''BUILD SUCCEEDED'' []], [])
     (JObj [(''name'', JStr ''build_and_run''),
            (''arguments'', JObj [(''project_path'', JStr ''App.xcodeproj''),
                                  (''scheme'', JStr ''App''),
                                  (''device_id'', JStr ''A1B2'')])])
   = call_tool stub_py scripted ([Completed 0 ''BUILD SUCCEEDED'' []], [])
     (JObj [(''name'', JStr ''build_and_run''),
            (''arguments'', JObj [(''project_path'', JStr ''App.xcodeproj''),
                                  (''scheme'', JStr ''App'')])])"
proof -
  have a: "map_of [(''name'', JStr ''build_and_run''),
          (''arguments'', JObj [(''project_path'', JStr ''App.xcodeproj''),
                                (''scheme'', JStr ''App''),
                                (''device_id'', JStr ''A1B2'')])] ''name''
           = Some (JStr ''build_and_run'')" by simp
  have b: "map_of [(''name'', JStr ''build_and_run''),
          (''arguments'', JObj [(''project_path'', JStr ''App.xcodeproj''),
                                (''scheme'', JStr ''App'')])] ''name''
           = Some (JStr ''build_and_run'')" by simp
  have c: "map_of [(''name'', JStr ''build_and_run''),
          (''arguments'', JObj [(''project_path'', JStr ''App.xcodeproj''),
                                (''scheme'', JStr ''App''),
                                (''device_id'', JStr ''A1B2'')])] ''arguments''
           = Some (JObj [(''project_path'', JStr ''App.xcodeproj''),
                                (''scheme'', JStr ''App''),
                                (''device_id'', JStr ''A1B2'')])" by simp
  have d: "map_of [(''name'', JStr ''build_and_run''),
          (''arguments'', JObj [(''project_path'', JStr ''App.xcodeproj''),
                                (''scheme'', JStr ''App'')])] ''arguments''
           = Some (JObj [(''project_path'', JStr ''App.xcodeproj''),
                                (''scheme'', JStr ''App'')])" by simp
  have e: "map_of [(''project_path'', JStr ''App.xcodeproj''), (''scheme'', JStr ''App''),
                   (''device_id'', JStr ''A1B2'')] ''project_path''
           = map_of [(''project_path'', JStr ''App.xcodeproj''), (''scheme'', JStr ''App'')]
               ''project_path''" by simp
  have f: "map_of [(''project_path'', JStr ''App.xcodeproj''), (''scheme'', JStr ''App''),
                   (''device_id'', JStr ''A1B2'')] ''scheme''
           = map_of [(''project_path'', JStr ''App.xcodeproj''), (''scheme'', JStr ''App'')]
               ''scheme''" by simp
  from build_and_run_ignores_device_id [OF a b c d e f] show ?thesis
    by (rule conjunct1)
qed

section \<open>The transport loop\<close>













end
